theory Spec2Isabelle
  imports Main "HOL-Library.Word"
begin

section \<open>The wapm-shell command runner\<close>

text \<open>
  A shallow embedding of \<^verbatim>\<open>examples/wapm-shell/services/command-runner/command-runner.ts\<close>:
  the builder \<^verbatim>\<open>getCommandOptionsFromAST\<close>, which turns a parsed command chain into the
  list of command options, and the class \<^verbatim>\<open>CommandRunner\<close>, which spawns one process per
  stage and routes the bytes between them.

  JavaScript strings are modelled as \<^typ>\<open>string\<close>, a \<^verbatim>\<open>Uint8Array\<close> as a list of
  8-bit words. A thrown value or a rejected promise is the left injection of a sum.
  The collaborators that are not part of the file (the shell parser, the command cache,
  the platform's text decoder and the two capability flags of \<^verbatim>\<open>window\<close>) are the
  fields of a record \<open>host\<close> that every operation takes as its first argument.
  The effects on the terminal, on the caller's callback, on processes and on workers are
  appended, in order, to the field \<open>trace\<close> of the runner.
\<close>

subsection \<open>Values\<close>

type_synonym byte = "8 word"

datatype js_error = Error string | TypeError string

text \<open>\<^verbatim>\<open>Error.prototype.toString\<close>: the name, then the message when there is one.\<close>

fun toString :: "js_error \<Rightarrow> string" where
  "toString (Error m) = (if m = [] then ''Error'' else ''Error: '' @ m)"
| "toString (TypeError m) = (if m = [] then ''TypeError'' else ''TypeError: '' @ m)"

text \<open>The message of the engine when a property of \<^verbatim>\<open>undefined\<close> is read.\<close>

definition cannot_read :: "string \<Rightarrow> string" where
  "cannot_read p = ''Cannot read property '' @ [CHR 0x27] @ p @ [CHR 0x27] @ '' of undefined''"

definition crlf :: string where
  "crlf = [CHR 0x0D, CHR 0x0A]"

subsection \<open>The parsed command line\<close>

text \<open>
  A node of the tree that \<^verbatim>\<open>shell-parse\<close> returns: its \<^verbatim>\<open>type\<close>, the \<^verbatim>\<open>value\<close> of its
  \<^verbatim>\<open>command\<close>, the \<^verbatim>\<open>value\<close>s of its \<^verbatim>\<open>args\<close>, the entries of \<^verbatim>\<open>env\<close> (key and
  \<^verbatim>\<open>value\<close>), and \<^verbatim>\<open>redirects\<close>, which may be missing. A redirect has a \<^verbatim>\<open>type\<close> and,
  when it is a pipe, the \<^verbatim>\<open>command\<close> it leads to.
\<close>

datatype ast =
  Ast (ast_type: string) (ast_command: string) (ast_args: "string list")
      (ast_env: "(string \<times> string) list") (ast_redirects: "redirect list option")
and redirect =
  Redirect (redirect_type: string) (redirect_command: "ast option")

record 'm CommandOptions =
  args :: "string list"
  env :: "(string \<times> string) list"
  module :: 'm

subsection \<open>getCommandOptionsFromAST\<close>

text \<open>
  The promise chain runs \<^verbatim>\<open>redirectTask\<close> first, then \<^verbatim>\<open>getWasmModuleTask\<close>, then
  puts the options of this node in front of the ones of the redirect. A rejection of
  either task rejects the whole promise.
\<close>

fun getCommandOptionsFromAST ::
  "(string \<Rightarrow> js_error + 'm) \<Rightarrow> ast \<Rightarrow> js_error + 'm CommandOptions list" where
  "getCommandOptionsFromAST getWasmModuleForCommandName (Ast t command commandArgs astEnv rs) =
     (case (case rs of
              None \<Rightarrow> Inr []
            | Some [] \<Rightarrow> Inr []
            | Some (Redirect astRedirect_type astRedirect_command # _) \<Rightarrow>
                (if astRedirect_type = ''pipe''
                 then (case astRedirect_command of
                         None \<Rightarrow> Inl (TypeError (cannot_read ''command''))
                       | Some c \<Rightarrow> getCommandOptionsFromAST getWasmModuleForCommandName c)
                 else Inr [])) of
        Inl e \<Rightarrow> Inl e
      | Inr commandOptions \<Rightarrow>
          (case getWasmModuleForCommandName command of
             Inl e \<Rightarrow> Inl e
           | Inr wasmModule \<Rightarrow>
               Inr (\<lparr>args = command # commandArgs, env = astEnv, module = wasmModule\<rparr>
                    # commandOptions)))"

subsection \<open>The state of a CommandRunner\<close>

record 'm host =
  parse :: "string \<Rightarrow> js_error + ast list"
  getWasmModuleForCommandName :: "string \<Rightarrow> js_error + 'm"
  decode :: "byte list \<Rightarrow> string"
  SharedArrayBuffer :: bool
  Atomics :: bool

text \<open>
  A process is what its constructor was given: the command options at the index, the
  index its three callbacks are bound to, and the initial stdin. A spawned process
  object has a worker only when the process was spawned as a worker.
\<close>

record 'm process =
  options :: "'m CommandOptions option"
  index :: nat
  stdin :: "byte list option"

record 'm process_object =
  process :: "'m process"
  worker :: "nat option"

datatype action =
    Xterm_write string
  | CommandEndCallback
  | Process_new nat "byte list option"
  | Process_start nat
  | Process_receiveStdinChunk nat "byte list"
  | Worker_terminate nat

record 'm CommandRunner =
  commandOptionsForProcessesToRun :: "'m CommandOptions list"
  spawnedProcessObjects :: "'m process_object list"
  initialStdinDataForNextProcess :: "byte list"
  isRunning :: bool
  commandString :: string
  trace :: "action list"

definition constructor :: "string \<Rightarrow> 'm CommandRunner" where
  "constructor cs =
     \<lparr>commandOptionsForProcessesToRun = [], spawnedProcessObjects = [],
      initialStdinDataForNextProcess = [], isRunning = False, commandString = cs,
      trace = []\<rparr>"

definition effect :: "action \<Rightarrow> 'm CommandRunner \<Rightarrow> 'm CommandRunner" where
  "effect a s = s\<lparr>trace := trace s @ [a]\<rparr>"

text \<open>An array read: \<^verbatim>\<open>undefined\<close> out of range.\<close>

definition at :: "'a list \<Rightarrow> nat \<Rightarrow> 'a option" where
  "at xs i = (if i < length xs then Some (xs ! i) else None)"

text \<open>\<^verbatim>\<open>dataString.replace(/\n/g, "\r\n")\<close>\<close>

fun replace_lf :: "string \<Rightarrow> string" where
  "replace_lf [] = []"
| "replace_lf (c # cs) =
     (if c = CHR 0x0A then CHR 0x0D # CHR 0x0A # replace_lf cs else c # replace_lf cs)"

subsection \<open>Spawning\<close>

definition initialStdin :: "'m CommandRunner \<Rightarrow> byte list option" where
  "initialStdin s =
     (if length (initialStdinDataForNextProcess s) > 0
      then Some (initialStdinDataForNextProcess s) else None)"

definition spawnProcessAsService ::
  "nat \<Rightarrow> 'm CommandRunner \<Rightarrow> 'm process_object \<times> 'm CommandRunner" where
  "spawnProcessAsService commandOptionIndex s =
     (\<lparr>process = \<lparr>options = at (commandOptionsForProcessesToRun s) commandOptionIndex,
                  index = commandOptionIndex, stdin = initialStdin s\<rparr>,
       worker = None\<rparr>,
      effect (Process_new commandOptionIndex (initialStdin s)) s)"

definition spawnProcessAsWorker ::
  "nat \<Rightarrow> 'm CommandRunner \<Rightarrow> 'm process_object \<times> 'm CommandRunner" where
  "spawnProcessAsWorker commandOptionIndex s =
     (\<lparr>process = \<lparr>options = at (commandOptionsForProcessesToRun s) commandOptionIndex,
                  index = commandOptionIndex, stdin = initialStdin s\<rparr>,
       worker = Some commandOptionIndex\<rparr>,
      effect (Process_new commandOptionIndex (initialStdin s)) s)"

definition spawnProcess :: "'m host \<Rightarrow> nat \<Rightarrow> 'm CommandRunner \<Rightarrow> 'm CommandRunner" where
  "spawnProcess h commandOptionIndex s =
     (let (spawnedProcessObject, s1) =
            (if SharedArrayBuffer h \<and> Atomics h \<and> False
             then spawnProcessAsWorker commandOptionIndex s
             else spawnProcessAsService commandOptionIndex s);
          s2 = (if length (initialStdinDataForNextProcess s1) > 0
                then s1\<lparr>initialStdinDataForNextProcess := []\<rparr> else s1);
          s3 = s2\<lparr>spawnedProcessObjects := spawnedProcessObjects s2 @ [spawnedProcessObject]\<rparr>
      in effect (Process_start commandOptionIndex) s3)"

definition tryToSpawnProcess :: "'m host \<Rightarrow> nat \<Rightarrow> 'm CommandRunner \<Rightarrow> 'm CommandRunner" where
  "tryToSpawnProcess h commandOptionIndex s =
     (if length (spawnedProcessObjects s) < 2
         \<and> commandOptionIndex < length (commandOptionsForProcessesToRun s)
      then spawnProcess h commandOptionIndex s
      else s)"

subsection \<open>runCommand\<close>

text \<open>
  \<^verbatim>\<open>parse\<close> is called before the \<^verbatim>\<open>try\<close>: what it throws rejects the promise of
  \<^verbatim>\<open>runCommand\<close> (the left injection) before anything has changed. The two checks and the
  awaited \<^verbatim>\<open>getCommandOptionsFromAST\<close> are inside the \<^verbatim>\<open>try\<close>; \<^verbatim>\<open>commandAst[0].type\<close>
  of an empty array is a TypeError of the engine, thrown there too.
\<close>

definition translate :: "'m host \<Rightarrow> ast list \<Rightarrow> js_error + 'm CommandOptions list" where
  "translate h commandAst =
     (if length commandAst > 1 then Inl (Error ''Only one command permitted'')
      else (case commandAst of
              [] \<Rightarrow> Inl (TypeError (cannot_read ''type''))
            | a # _ \<Rightarrow>
                (if ast_type a \<noteq> ''command'' then Inl (Error ''Only commands allowed'')
                 else getCommandOptionsFromAST (getWasmModuleForCommandName h) a)))"

definition runCommand :: "'m host \<Rightarrow> 'm CommandRunner \<Rightarrow> js_error + 'm CommandRunner" where
  "runCommand h s =
     (case parse h (commandString s) of
        Inl e \<Rightarrow> Inl e
      | Inr commandAst \<Rightarrow>
          (case translate h commandAst of
             Inl c \<Rightarrow>
               Inr (effect CommandEndCallback
                     (effect (Xterm_write (''wapm shell: parse error ('' @ toString c @ '')'' @ crlf)) s))
           | Inr commandOptions \<Rightarrow>
               Inr (tryToSpawnProcess h 0
                     (s\<lparr>commandOptionsForProcessesToRun := commandOptions, isRunning := True\<rparr>))))"

subsection \<open>The callbacks of a process, and kill\<close>

text \<open>
  The comparison \<^verbatim>\<open>commandOptionIndex < length - 1\<close> is one of JavaScript numbers: with no
  command options the right side is \<open>-1\<close>.
\<close>

definition processDataCallback ::
  "'m host \<Rightarrow> nat \<Rightarrow> byte list \<Rightarrow> 'm CommandRunner \<Rightarrow> 'm CommandRunner" where
  "processDataCallback h commandOptionIndex data s =
     (if int commandOptionIndex < int (length (commandOptionsForProcessesToRun s)) - 1
      then (if length (spawnedProcessObjects s) > 1
            then effect (Process_receiveStdinChunk
                           (index (process (spawnedProcessObjects s ! 1))) data) s
            else s\<lparr>initialStdinDataForNextProcess :=
                      initialStdinDataForNextProcess s @ data\<rparr>)
      else effect (Xterm_write (replace_lf (decode h data))) s)"

definition processEndCallback ::
  "'m host \<Rightarrow> nat \<Rightarrow> nat option \<Rightarrow> 'm CommandRunner \<Rightarrow> 'm CommandRunner" where
  "processEndCallback h commandOptionIndex processWorker s =
     (let s1 = (case processWorker of
                  Some w \<Rightarrow> effect (Worker_terminate w) s
                | None \<Rightarrow> s);
          s2 = s1\<lparr>spawnedProcessObjects := tl (spawnedProcessObjects s1)\<rparr>
      in if int commandOptionIndex < int (length (commandOptionsForProcessesToRun s2)) - 1
         then tryToSpawnProcess h (commandOptionIndex + 1) s2
         else effect CommandEndCallback (s2\<lparr>isRunning := False\<rparr>))"

definition terminate_worker :: "'m CommandRunner \<Rightarrow> 'm process_object \<Rightarrow> 'm CommandRunner" where
  "terminate_worker s processObject =
     (case worker processObject of
        Some w \<Rightarrow> effect (Worker_terminate w) s
      | None \<Rightarrow> s)"

definition kill :: "'m CommandRunner \<Rightarrow> 'm CommandRunner" where
  "kill s =
     (if \<not> isRunning s then s
      else effect CommandEndCallback
             ((foldl terminate_worker s (spawnedProcessObjects s))
                \<lparr>commandOptionsForProcessesToRun := [], spawnedProcessObjects := [],
                 isRunning := False\<rparr>))"

text \<open>
  The template literal reads \<^verbatim>\<open>commandOptionsForProcessesToRun[commandOptionIndex].args[0]\<close>
  before anything is written: out of range it throws, and an empty \<^verbatim>\<open>args\<close> prints as
  \<^verbatim>\<open>undefined\<close>.
\<close>

definition processErrorCallback ::
  "nat \<Rightarrow> string \<Rightarrow> 'm CommandRunner \<Rightarrow> js_error + 'm CommandRunner" where
  "processErrorCallback commandOptionIndex error s =
     (case at (commandOptionsForProcessesToRun s) commandOptionIndex of
        None \<Rightarrow> Inl (TypeError (cannot_read ''args''))
      | Some commandOptions \<Rightarrow>
          Inr (effect CommandEndCallback
                (kill
                  (effect (Xterm_write
                             (''Program ''
                              @ (case args commandOptions of [] \<Rightarrow> ''undefined'' | a # _ \<Rightarrow> a)
                              @ '': '' @ error @ crlf)) s))))"

subsection \<open>What happens to a runner\<close>

text \<open>
  After \<^verbatim>\<open>runCommand\<close>, the runner changes only when one of its callbacks or \<^verbatim>\<open>kill\<close>
  is called. The handlers are taken to run one after the other, each to its end. A
  callback that throws leaves the runner as it was.
\<close>

datatype event =
    Data nat "byte list"
  | End nat "nat option"
  | Err nat string
  | Kill

fun step :: "'m host \<Rightarrow> 'm CommandRunner \<Rightarrow> event \<Rightarrow> 'm CommandRunner" where
  "step h s (Data i data) = processDataCallback h i data s"
| "step h s (End i w) = processEndCallback h i w s"
| "step h s (Err i error) = (case processErrorCallback i error s of Inl e \<Rightarrow> s | Inr s' \<Rightarrow> s')"
| "step h s Kill = kill s"

definition steps :: "'m host \<Rightarrow> 'm CommandRunner \<Rightarrow> event list \<Rightarrow> 'm CommandRunner" where
  "steps h s es = foldl (step h) s es"

text \<open>
  The action of the branch of \<^verbatim>\<open>processDataCallback\<close> that hands a chunk to the second
  spawned process.
\<close>

fun is_handoff :: "action \<Rightarrow> bool" where
  "is_handoff (Process_receiveStdinChunk i data) = True"
| "is_handoff a = False"

subsection \<open>Command chains as the parser writes them\<close>

text \<open>
  A simple command is its name, its arguments and its environment. \<^verbatim>\<open>shell-parse\<close> puts
  the right side of a pipe into the first redirect of the left side, so \<^verbatim>\<open>a | b | c\<close> is
  the node of \<^verbatim>\<open>a\<close> with a pipe to the node of \<^verbatim>\<open>b\<close>, which has a pipe to the node
  of \<^verbatim>\<open>c\<close>. \<open>chain x xs\<close> is that tree for the command \<open>x\<close> piped through the commands
  \<open>xs\<close>, and \<open>spec_of m x\<close> the command options expected for \<open>x\<close> when the command
  cache answers \<open>m\<close>.
\<close>

type_synonym simple_command = "string \<times> string list \<times> (string \<times> string) list"

fun chain :: "simple_command \<Rightarrow> simple_command list \<Rightarrow> ast" where
  "chain (c, as, e) [] = Ast ''command'' c as e (Some [])"
| "chain (c, as, e) (d # ds) =
     Ast ''command'' c as e (Some [Redirect ''pipe'' (Some (chain d ds))])"

definition spec_of :: "(string \<Rightarrow> 'm) \<Rightarrow> simple_command \<Rightarrow> 'm CommandOptions" where
  "spec_of m x = (case x of (c, as, e) \<Rightarrow> \<lparr>args = c # as, env = e, module = m c\<rparr>)"

subsection \<open>A host to run examples on\<close>

text \<open>
  Three commands are known to the cache; five command lines are known to the parser,
  with the trees that \<^verbatim>\<open>shell-parse\<close> gives them; the decoder knows the line feed
  and two letters. \<open>demo_running\<close> is the runner right after \<^verbatim>\<open>runCommand\<close> on
  \<^verbatim>\<open>a | b\<close>.
\<close>

definition demo_getWasmModule :: "string \<Rightarrow> js_error + string" where
  "demo_getWasmModule name =
     (if name \<in> set [''a'', ''b'', ''c''] then Inr (name @ ''.wasm'')
      else Inl (Error (''command not found '' @ name)))"

definition demo_parse :: "string \<Rightarrow> js_error + ast list" where
  "demo_parse cs =
     (if cs = ''a'' then Inr [chain (''a'', [], []) []]
      else if cs = ''a | b'' then Inr [chain (''a'', [], []) [(''b'', [], [])]]
      else if cs = ''a; b'' then Inr [chain (''a'', [], []) [], chain (''b'', [], []) []]
      else if cs = ''x=1'' then Inr [Ast ''variableAssignment'' [] [] [] None]
      else if cs = ''nope'' then Inr [chain (''nope'', [], []) []]
      else Inl (Error ''SyntaxError''))"

fun demo_char :: "byte \<Rightarrow> char" where
  "demo_char b =
     (if b = 0x0A then CHR 0x0A
      else if b = 0x68 then CHR ''h''
      else if b = 0x69 then CHR ''i''
      else CHR ''?'')"

definition demo_decode :: "byte list \<Rightarrow> string" where
  "demo_decode data = map demo_char data"

definition demo_host :: "string host" where
  "demo_host =
     \<lparr>parse = demo_parse, getWasmModuleForCommandName = demo_getWasmModule,
      decode = demo_decode, SharedArrayBuffer = True, Atomics = True\<rparr>"

definition demo_running :: "string CommandRunner" where
  "demo_running =
     \<lparr>commandOptionsForProcessesToRun =
        [\<lparr>args = [''a''], env = [], module = ''a.wasm''\<rparr>,
         \<lparr>args = [''b''], env = [], module = ''b.wasm''\<rparr>],
      spawnedProcessObjects =
        [\<lparr>process = \<lparr>options = Some \<lparr>args = [''a''], env = [], module = ''a.wasm''\<rparr>,
                      index = 0, stdin = None\<rparr>,
          worker = None\<rparr>],
      initialStdinDataForNextProcess = [], isRunning = True, commandString = ''a | b'',
      trace = [Process_new 0 None, Process_start 0]\<rparr>"

text \<open>
  A runner with two spawned process objects. No run reaches it; it is there to take the
  branch of \<^verbatim>\<open>processDataCallback\<close> that needs a second one.
\<close>

definition demo_two_live :: "string CommandRunner" where
  "demo_two_live =
     demo_running\<lparr>spawnedProcessObjects :=
       spawnedProcessObjects demo_running @
         [\<lparr>process = \<lparr>options = Some \<lparr>args = [''b''], env = [], module = ''b.wasm''\<rparr>,
                       index = 1, stdin = None\<rparr>,
           worker = None\<rparr>]\<rparr>"

text \<open>
  A running runner whose one spawned process object has a worker, as
  \<^verbatim>\<open>spawnProcessAsWorker\<close> would make it.
\<close>

definition demo_worker_running :: "string CommandRunner" where
  "demo_worker_running =
     demo_running\<lparr>spawnedProcessObjects :=
       [\<lparr>process = \<lparr>options = Some \<lparr>args = [''a''], env = [], module = ''a.wasm''\<rparr>,
                     index = 0, stdin = None\<rparr>,
         worker = Some 0\<rparr>]\<rparr>"

section \<open>Properties\<close>

subsection \<open>Basic facts\<close>

lemmas run_defs = runCommand_def translate_def tryToSpawnProcess_def spawnProcess_def
  spawnProcessAsService_def spawnProcessAsWorker_def initialStdin_def effect_def at_def
  constructor_def

lemmas callback_defs = processDataCallback_def processEndCallback_def processErrorCallback_def
  kill_def terminate_worker_def steps_def

lemmas demo_defs = demo_host_def demo_parse_def demo_getWasmModule_def demo_decode_def

lemma demo_run: "runCommand demo_host (constructor ''a | b'') = Inr demo_running"
  by (simp add: run_defs demo_defs demo_running_def)

lemma effect_simps:
  "commandOptionsForProcessesToRun (effect a s) = commandOptionsForProcessesToRun s"
  "spawnedProcessObjects (effect a s) = spawnedProcessObjects s"
  "initialStdinDataForNextProcess (effect a s) = initialStdinDataForNextProcess s"
  "isRunning (effect a s) = isRunning s"
  "commandString (effect a s) = commandString s"
  "trace (effect a s) = trace s @ [a]"
  by (simp_all add: effect_def)

lemma getCommandOptionsFromAST_no_pipe:
  "rs = None \<or> rs = Some [] \<or> (\<exists>ty c rest. rs = Some (Redirect ty c # rest) \<and> ty \<noteq> ''pipe'') \<Longrightarrow>
   getCommandOptionsFromAST g (Ast t c as e rs) =
     (case g c of Inl err \<Rightarrow> Inl err
      | Inr m \<Rightarrow> Inr [\<lparr>args = c # as, env = e, module = m\<rparr>])"
  by (auto split: sum.splits)

lemma chain_build:
  "\<forall>x \<in> set (x0 # xs). g (fst x) = Inr (m (fst x)) \<Longrightarrow>
   getCommandOptionsFromAST g (chain x0 xs) = Inr (map (spec_of m) (x0 # xs))"
proof (induction xs arbitrary: x0)
  case Nil
  then show ?case by (cases x0) (simp add: spec_of_def)
next
  case (Cons d ds)
  obtain c as e where x0: "x0 = (c, as, e)" by (cases x0)
  have "getCommandOptionsFromAST g (chain d ds) = Inr (map (spec_of m) (d # ds))"
    using Cons.prems by (intro Cons.IH) simp
  moreover have "g c = Inr (m c)" using Cons.prems x0 by simp
  ultimately show ?case by (simp add: x0 spec_of_def)
qed

lemma foldl_terminate_worker:
  "foldl terminate_worker s pos =
     s\<lparr>trace := trace s @ map Worker_terminate (List.map_filter worker pos)\<rparr>"
proof (induction pos arbitrary: s)
  case Nil
  show ?case by simp
next
  case (Cons p ps)
  have "terminate_worker s p =
          s\<lparr>trace := trace s @ map Worker_terminate (List.map_filter worker [p])\<rparr>"
    by (cases "worker p") (simp_all add: terminate_worker_def effect_def)
  then show ?case
    by (cases "worker p") (simp_all add: Cons.IH)
qed

lemma kill_running:
  "isRunning s \<Longrightarrow> kill s =
     s\<lparr>commandOptionsForProcessesToRun := [], spawnedProcessObjects := [], isRunning := False,
       trace := trace s @ map Worker_terminate (List.map_filter worker (spawnedProcessObjects s))
                @ [CommandEndCallback]\<rparr>"
  by (simp add: kill_def foldl_terminate_worker effect_def)

lemma kill_idle: "\<not> isRunning s \<Longrightarrow> kill s = s"
  by (simp add: kill_def)

subsection \<open>The builder\<close>

text \<open>
  C3. For a chain of \<open>k\<close> pipes whose \<open>k + 1\<close> command names the cache resolves, the
  builder returns \<open>k + 1\<close> command options, in the order the commands are written, each
  with the command name followed by its arguments. A single node with no pipe in front
  of its redirects gives exactly one command options, the name followed by the
  arguments.
\<close>

theorem getCommandOptionsFromAST_chain:
  "((\<forall>x \<in> set (x0 # xs). g (fst x) = Inr (m (fst x))) \<longrightarrow>
      getCommandOptionsFromAST g (chain x0 xs) = Inr (map (spec_of m) (x0 # xs))
      \<and> length (map (spec_of m) (x0 # xs)) = length xs + 1
      \<and> map args (map (spec_of m) (x0 # xs)) = map (\<lambda>(c, as, e). c # as) (x0 # xs))
   \<and> (g c = Inr w \<and>
        (rs = None \<or> rs = Some [] \<or>
         (\<exists>ty a rest. rs = Some (Redirect ty a # rest) \<and> ty \<noteq> ''pipe'')) \<longrightarrow>
      getCommandOptionsFromAST g (Ast t c as e rs) =
        Inr [\<lparr>args = c # as, env = e, module = w\<rparr>])"
proof (intro conjI impI)
  assume "\<forall>x \<in> set (x0 # xs). g (fst x) = Inr (m (fst x))"
  then show "getCommandOptionsFromAST g (chain x0 xs) = Inr (map (spec_of m) (x0 # xs))"
    by (rule chain_build)
next
  show "length (map (spec_of m) (x0 # xs)) = length xs + 1" by simp
next
  show "map args (map (spec_of m) (x0 # xs)) = map (\<lambda>(c, as, e). c # as) (x0 # xs)"
    by (simp add: spec_of_def split_def)
next
  assume "g c = Inr w \<and>
    (rs = None \<or> rs = Some [] \<or>
     (\<exists>ty a rest. rs = Some (Redirect ty a # rest) \<and> ty \<noteq> ''pipe''))"
  then show "getCommandOptionsFromAST g (Ast t c as e rs) =
      Inr [\<lparr>args = c # as, env = e, module = w\<rparr>]"
    using getCommandOptionsFromAST_no_pipe [of rs g t c as e] by auto
qed

theorem getCommandOptionsFromAST_chain_witness:
  "getCommandOptionsFromAST demo_getWasmModule
     (chain (''a'', [''-n''], [(''K'', ''v'')]) [(''b'', [], []), (''c'', [''x'', ''y''], [])]) =
     Inr [\<lparr>args = [''a'', ''-n''], env = [(''K'', ''v'')], module = ''a.wasm''\<rparr>,
          \<lparr>args = [''b''], env = [], module = ''b.wasm''\<rparr>,
          \<lparr>args = [''c'', ''x'', ''y''], env = [], module = ''c.wasm''\<rparr>]
   \<and> getCommandOptionsFromAST demo_getWasmModule
       (Ast ''command'' ''a'' [''-n''] [] (Some [Redirect ''redirectFd'' None])) =
     Inr [\<lparr>args = [''a'', ''-n''], env = [], module = ''a.wasm''\<rparr>]"
  using getCommandOptionsFromAST_chain
    [of "(''a'', [''-n''], [(''K'', ''v'')])" "[(''b'', [], []), (''c'', [''x'', ''y''], [])]"
        demo_getWasmModule "\<lambda>n. n @ ''.wasm''" "''a''" "''a.wasm''"
        "Some [Redirect ''redirectFd'' None]" "''command''" "[''-n'']" "[]"]
  by (simp add: demo_getWasmModule_def spec_of_def)

text \<open>
  C10. A first redirect that is not a pipe, and every redirect after the first, change
  nothing in what the builder returns: the result is the one for the node without
  them, and no failure comes from them.
\<close>

theorem getCommandOptionsFromAST_ignores_redirects:
  "(redirect_type r \<noteq> ''pipe'' \<longrightarrow>
      getCommandOptionsFromAST g (Ast t c as e (Some (r # rs))) =
        getCommandOptionsFromAST g (Ast t c as e None)
      \<and> getCommandOptionsFromAST g (Ast t c as e (Some (r # rs))) =
        getCommandOptionsFromAST g (Ast t c as e (Some [])))
   \<and> getCommandOptionsFromAST g (Ast t c as e (Some (r # rs))) =
       getCommandOptionsFromAST g (Ast t c as e (Some [r]))"
  by (cases r) simp

theorem getCommandOptionsFromAST_ignores_redirects_witness:
  "redirect_type (Redirect ''redirectFd'' None) \<noteq> ''pipe''
   \<and> getCommandOptionsFromAST demo_getWasmModule
       (Ast ''command'' ''a'' [] []
          (Some [Redirect ''redirectFd'' None,
                 Redirect ''pipe'' (Some (chain (''b'', [], []) []))])) =
     Inr [\<lparr>args = [''a''], env = [], module = ''a.wasm''\<rparr>]
   \<and> getCommandOptionsFromAST demo_getWasmModule
       (Ast ''command'' ''a'' [] []
          (Some [Redirect ''pipe'' (Some (chain (''b'', [], []) [])),
                 Redirect ''pipe'' (Some (chain (''c'', [], []) []))])) =
     Inr [\<lparr>args = [''a''], env = [], module = ''a.wasm''\<rparr>,
          \<lparr>args = [''b''], env = [], module = ''b.wasm''\<rparr>]"
  using getCommandOptionsFromAST_ignores_redirects
    [of "Redirect ''redirectFd'' None" demo_getWasmModule "''command''" "''a''" "[]" "[]"
        "[Redirect ''pipe'' (Some (chain (''b'', [], []) []))]"]
    getCommandOptionsFromAST_ignores_redirects
    [of "Redirect ''pipe'' (Some (chain (''b'', [], []) []))" demo_getWasmModule "''command''"
        "''a''" "[]" "[]" "[Redirect ''pipe'' (Some (chain (''c'', [], []) []))]"]
  by (simp add: demo_getWasmModule_def)

subsection \<open>runCommand and what it catches\<close>

lemma runCommand_caught:
  assumes "parse h (commandString s) = Inr commandAst"
    and "translate h commandAst = Inl c"
  shows "runCommand h s =
    Inr (s\<lparr>trace := trace s @
              [Xterm_write (''wapm shell: parse error ('' @ toString c @ '')'' @ crlf),
               CommandEndCallback]\<rparr>)"
  using assms by (simp add: runCommand_def effect_def)

text \<open>
  C5. When the parser returns more than one statement, or one statement that is not a
  command, \<^verbatim>\<open>runCommand\<close> on a new runner writes the one line
  \<^verbatim>\<open>wapm shell: parse error (<message>)\r\n\<close> to the terminal and calls the callback once.
  Nothing else happens: no process is made, and the runner is not running.
\<close>

theorem runCommand_parse_failure:
  assumes "parse h cs = Inr commandAst"
    and "length commandAst > 1 \<or> (\<exists>a. commandAst = [a] \<and> ast_type a \<noteq> ''command'')"
  shows "runCommand h (constructor cs) =
    Inr \<lparr>commandOptionsForProcessesToRun = [], spawnedProcessObjects = [],
         initialStdinDataForNextProcess = [], isRunning = False, commandString = cs,
         trace = [Xterm_write (''wapm shell: parse error (''
                    @ (if length commandAst > 1 then ''Error: Only one command permitted''
                       else ''Error: Only commands allowed'')
                    @ '')'' @ crlf),
                  CommandEndCallback]\<rparr>"
proof -
  have "translate h commandAst =
      Inl (if length commandAst > 1 then Error ''Only one command permitted''
           else Error ''Only commands allowed'')"
    using assms(2) by (auto simp: translate_def)
  moreover have "parse h (commandString (constructor cs :: 'a CommandRunner)) = Inr commandAst"
    using assms(1) by (simp add: constructor_def)
  ultimately show ?thesis
    by (simp add: runCommand_caught) (simp add: constructor_def)
qed

theorem runCommand_parse_failure_witness:
  "runCommand demo_host (constructor ''a; b'') =
    Inr \<lparr>commandOptionsForProcessesToRun = [], spawnedProcessObjects = [],
         initialStdinDataForNextProcess = [], isRunning = False, commandString = ''a; b'',
         trace = [Xterm_write (''wapm shell: parse error (Error: Only one command permitted)'' @ crlf),
                  CommandEndCallback]\<rparr>
   \<and> runCommand demo_host (constructor ''x=1'') =
    Inr \<lparr>commandOptionsForProcessesToRun = [], spawnedProcessObjects = [],
         initialStdinDataForNextProcess = [], isRunning = False, commandString = ''x=1'',
         trace = [Xterm_write (''wapm shell: parse error (Error: Only commands allowed)'' @ crlf),
                  CommandEndCallback]\<rparr>"
  using runCommand_parse_failure
          [of demo_host "''a; b''" "[chain (''a'', [], []) [], chain (''b'', [], []) []]"]
        runCommand_parse_failure
          [of demo_host "''x=1''" "[Ast ''variableAssignment'' [] [] [] None]"]
  by (simp add: demo_defs)

text \<open>
  C2, as the code has it. The \<^verbatim>\<open>await\<close> of \<^verbatim>\<open>getCommandOptionsFromAST\<close> stands inside the
  \<^verbatim>\<open>try\<close>, so a rejection of the command cache is caught like the two thrown errors: one
  line \<^verbatim>\<open>wapm shell: parse error (<failure>)\r\n\<close> on the terminal, one call of the
  callback, no process, the runner not running, and the promise of \<^verbatim>\<open>runCommand\<close>
  fulfilled.
\<close>

theorem runCommand_resolution_failure:
  assumes "parse h cs = Inr [a]"
    and "ast_type a = ''command''"
    and "getCommandOptionsFromAST (getWasmModuleForCommandName h) a = Inl e"
  shows "runCommand h (constructor cs) =
    Inr \<lparr>commandOptionsForProcessesToRun = [], spawnedProcessObjects = [],
         initialStdinDataForNextProcess = [], isRunning = False, commandString = cs,
         trace = [Xterm_write (''wapm shell: parse error ('' @ toString e @ '')'' @ crlf),
                  CommandEndCallback]\<rparr>"
proof -
  have "translate h [a] = Inl e"
    using assms(2,3) by (simp add: translate_def)
  moreover have "parse h (commandString (constructor cs :: 'a CommandRunner)) = Inr [a]"
    using assms(1) by (simp add: constructor_def)
  ultimately show ?thesis
    by (simp add: runCommand_caught) (simp add: constructor_def)
qed

theorem runCommand_resolution_failure_witness:
  "demo_getWasmModule ''nope'' = Inl (Error ''command not found nope'')
   \<and> runCommand demo_host (constructor ''nope'') =
    Inr \<lparr>commandOptionsForProcessesToRun = [], spawnedProcessObjects = [],
         initialStdinDataForNextProcess = [], isRunning = False, commandString = ''nope'',
         trace = [Xterm_write (''wapm shell: parse error (Error: command not found nope)'' @ crlf),
                  CommandEndCallback]\<rparr>"
  using runCommand_resolution_failure
          [of demo_host "''nope''" "chain (''nope'', [], []) []" "Error ''command not found nope''"]
  by (simp add: demo_defs)

text \<open>
  The command cache does not know \<^verbatim>\<open>nope\<close>. The run is not rejected with that failure:
  it writes the diagnostic and calls the callback.
\<close>

theorem runCommand_resolution_failure_not_rejected:
  "getCommandOptionsFromAST (getWasmModuleForCommandName demo_host) (chain (''nope'', [], []) [])
     = Inl (Error ''command not found nope'')
   \<and> runCommand demo_host (constructor ''nope'') \<noteq> Inl (Error ''command not found nope'')
   \<and> runCommand demo_host (constructor ''nope'') =
    Inr \<lparr>commandOptionsForProcessesToRun = [], spawnedProcessObjects = [],
         initialStdinDataForNextProcess = [], isRunning = False, commandString = ''nope'',
         trace = [Xterm_write (''wapm shell: parse error (Error: command not found nope)'' @ crlf),
                  CommandEndCallback]\<rparr>"
  by (simp add: run_defs demo_defs)

subsection \<open>The error callback\<close>

text \<open>
  On a running runner, an error of a stage whose command options exist calls the
  callback twice: \<^verbatim>\<open>kill\<close> calls it, and \<^verbatim>\<open>processErrorCallback\<close> calls it again.
\<close>

lemma count_terminate: "count_list (map Worker_terminate ws) CommandEndCallback = 0"
  by (induction ws) simp_all

lemma processErrorCallback_running:
  assumes "isRunning s" and "at (commandOptionsForProcessesToRun s) i = Some c"
  shows "\<exists>s'. processErrorCallback i err s = Inr s'
    \<and> count_list (trace s') CommandEndCallback = count_list (trace s) CommandEndCallback + 2"
  using assms
  by (simp add: processErrorCallback_def kill_running effect_simps count_terminate)

text \<open>
  C1 asks for one call of the callback on every path of a run. The error path has two.
  Here \<^verbatim>\<open>runCommand\<close> has started \<^verbatim>\<open>a | b\<close> and the first stage reports \<^verbatim>\<open>boom\<close>:
  the diagnostic is written once and the callback is called twice.
\<close>

theorem processErrorCallback_calls_back_twice:
  "runCommand demo_host (constructor ''a | b'') = Inr demo_running
   \<and> processErrorCallback 0 ''boom'' demo_running =
       Inr \<lparr>commandOptionsForProcessesToRun = [], spawnedProcessObjects = [],
            initialStdinDataForNextProcess = [], isRunning = False, commandString = ''a | b'',
            trace = [Process_new 0 None, Process_start 0,
                     Xterm_write (''Program a: boom'' @ crlf),
                     CommandEndCallback, CommandEndCallback]\<rparr>"
  by (simp add: demo_run) (simp add: demo_running_def callback_defs effect_def at_def)

subsection \<open>Spawned process objects, the trace and the buffer along a run\<close>

lemma spawnProcess_fields:
  "commandOptionsForProcessesToRun (spawnProcess h i s) = commandOptionsForProcessesToRun s"
  "spawnedProcessObjects (spawnProcess h i s) =
     spawnedProcessObjects s @
       [\<lparr>process = \<lparr>options = at (commandOptionsForProcessesToRun s) i, index = i,
                     stdin = initialStdin s\<rparr>, worker = None\<rparr>]"
  "initialStdinDataForNextProcess (spawnProcess h i s) = []"
  "isRunning (spawnProcess h i s) = isRunning s"
  "commandString (spawnProcess h i s) = commandString s"
  "trace (spawnProcess h i s) = trace s @ [Process_new i (initialStdin s), Process_start i]"
  by (simp_all add: spawnProcess_def spawnProcessAsService_def effect_def)

lemma steps_Nil: "steps h s [] = s"
  by (simp add: steps_def)

lemma steps_Cons: "steps h s (e # es) = steps h (step h s e) es"
  by (simp add: steps_def)

lemma steps_append: "steps h s (es @ es') = steps h (steps h s es) es'"
  by (simp add: steps_def)

lemma tryToSpawnProcess_live:
  "length (spawnedProcessObjects (tryToSpawnProcess h i s)) \<le> max 2 (length (spawnedProcessObjects s))"
  by (simp add: tryToSpawnProcess_def spawnProcess_fields)

lemma kill_live: "length (spawnedProcessObjects (kill s)) \<le> length (spawnedProcessObjects s)"
  by (cases "isRunning s") (simp_all add: kill_running kill_idle)

lemma processDataCallback_live:
  "spawnedProcessObjects (processDataCallback h i data s) = spawnedProcessObjects s"
  by (simp add: processDataCallback_def effect_def)

lemma processErrorCallback_live:
  "processErrorCallback i err s = Inr s' \<Longrightarrow>
   length (spawnedProcessObjects s') \<le> length (spawnedProcessObjects s)"
  using kill_live [of "effect a s" for a]
  by (auto simp: processErrorCallback_def effect_simps split: option.splits)

lemma processEndCallback_live:
  "length (spawnedProcessObjects (processEndCallback h i w s)) \<le>
     max 1 (length (spawnedProcessObjects s))"
  by (cases w) (auto simp: processEndCallback_def Let_def tryToSpawnProcess_def
       spawnProcess_fields effect_def)

lemma step_live:
  "length (spawnedProcessObjects (step h s e)) \<le> max 1 (length (spawnedProcessObjects s))"
proof (cases e)
  case (Data i data)
  then show ?thesis by (simp add: processDataCallback_live)
next
  case (End i w)
  then show ?thesis using processEndCallback_live [of h i w s] by simp
next
  case (Err i err)
  then show ?thesis
    using processErrorCallback_live [of i err s]
    by (cases "processErrorCallback i err s") auto
next
  case Kill
  then show ?thesis using kill_live [of s] by simp
qed

lemma steps_live:
  "length (spawnedProcessObjects (steps h s es)) \<le> max 1 (length (spawnedProcessObjects s))"
proof (induction es arbitrary: s)
  case Nil
  show ?case by (simp add: steps_Nil)
next
  case (Cons e es)
  have "length (spawnedProcessObjects (steps h (step h s e) es))
          \<le> max 1 (length (spawnedProcessObjects (step h s e)))"
    by (rule Cons.IH)
  also have "\<dots> \<le> max 1 (length (spawnedProcessObjects s))"
    using step_live [of h s e] by simp
  finally show ?case by (simp add: steps_Cons)
qed

lemma runCommand_live:
  assumes "runCommand h s = Inr s'"
  shows "length (spawnedProcessObjects s') \<le> max 2 (length (spawnedProcessObjects s))"
proof -
  have *: "length (spawnedProcessObjects
              (tryToSpawnProcess h 0
                 (s\<lparr>commandOptionsForProcessesToRun := c, isRunning := True\<rparr>)))
           \<le> max 2 (length (spawnedProcessObjects s))" for c
    using tryToSpawnProcess_live
            [of h 0 "s\<lparr>commandOptionsForProcessesToRun := c, isRunning := True\<rparr>"]
    by simp
  show ?thesis
    using assms *
    by (auto simp: runCommand_def effect_simps split: sum.splits)
qed

lemma runCommand_new_live:
  assumes "runCommand h (constructor cs) = Inr s0"
  shows "length (spawnedProcessObjects s0) \<le> 1"
  using assms
  by (auto simp: runCommand_def effect_simps tryToSpawnProcess_def spawnProcess_fields
        constructor_def split: sum.splits if_splits)


lemma filter_handoff_terminate: "filter is_handoff (map Worker_terminate ws) = []"
  by (induction ws) simp_all

lemma kill_handoff:
  "filter is_handoff (trace (kill s)) = filter is_handoff (trace s)"
  by (cases "isRunning s") (simp_all add: kill_running kill_idle filter_handoff_terminate)

lemma processDataCallback_buffered:
  assumes "length (spawnedProcessObjects s) \<le> 1"
    and "int i < int (length (commandOptionsForProcessesToRun s)) - 1"
  shows "processDataCallback h i data s =
    s\<lparr>initialStdinDataForNextProcess := initialStdinDataForNextProcess s @ data\<rparr>"
  using assms by (simp add: processDataCallback_def)

lemma processDataCallback_written:
  assumes "\<not> int i < int (length (commandOptionsForProcessesToRun s)) - 1"
  shows "processDataCallback h i data s =
    s\<lparr>trace := trace s @ [Xterm_write (replace_lf (decode h data))]\<rparr>"
  using assms by (simp add: processDataCallback_def effect_def)

lemma processDataCallback_handoff:
  assumes "length (spawnedProcessObjects s) \<le> 1"
  shows "filter is_handoff (trace (processDataCallback h i data s)) = filter is_handoff (trace s)"
proof (cases "int i < int (length (commandOptionsForProcessesToRun s)) - 1")
  case True
  with assms show ?thesis by (simp add: processDataCallback_buffered)
next
  case False
  then show ?thesis by (simp add: processDataCallback_written)
qed

lemma processEndCallback_handoff:
  "filter is_handoff (trace (processEndCallback h i w s)) = filter is_handoff (trace s)"
  by (cases w) (simp_all add: processEndCallback_def Let_def tryToSpawnProcess_def
       spawnProcess_fields effect_def)

lemma processErrorCallback_handoff:
  "processErrorCallback i err s = Inr s' \<Longrightarrow>
   filter is_handoff (trace s') = filter is_handoff (trace s)"
  by (auto simp: processErrorCallback_def effect_simps kill_handoff split: option.splits)

lemma step_handoff:
  assumes "length (spawnedProcessObjects s) \<le> 1"
  shows "filter is_handoff (trace (step h s e)) = filter is_handoff (trace s)"
proof (cases e)
  case (Data i data)
  with assms show ?thesis by (simp add: processDataCallback_handoff)
next
  case (End i w)
  then show ?thesis by (simp add: processEndCallback_handoff)
next
  case (Err i err)
  then show ?thesis
    using processErrorCallback_handoff [of i err s]
    by (cases "processErrorCallback i err s") auto
next
  case Kill
  then show ?thesis by (simp add: kill_handoff)
qed

lemma steps_handoff:
  assumes "length (spawnedProcessObjects s) \<le> 1"
  shows "filter is_handoff (trace (steps h s es)) = filter is_handoff (trace s)"
  using assms
proof (induction es arbitrary: s)
  case Nil
  show ?case by (simp add: steps_Nil)
next
  case (Cons e es)
  have "length (spawnedProcessObjects (step h s e)) \<le> 1"
    using step_live [of h s e] Cons.prems by simp
  then have "filter is_handoff (trace (steps h (step h s e) es))
      = filter is_handoff (trace (step h s e))"
    by (rule Cons.IH)
  then show ?case
    using Cons.prems by (simp add: steps_Cons step_handoff)
qed

lemma runCommand_new_handoff:
  assumes "runCommand h (constructor cs) = Inr s0"
  shows "filter is_handoff (trace s0) = []"
  using assms
  by (auto simp: runCommand_def effect_simps tryToSpawnProcess_def spawnProcess_fields
        constructor_def split: sum.splits if_splits)

lemma run_live:
  assumes "runCommand h (constructor cs) = Inr s0"
  shows "length (spawnedProcessObjects (steps h s0 es)) \<le> 1"
  using steps_live [of h s0 es] runCommand_new_live [OF assms] by simp

lemma processEndCallback_spawns:
  assumes "length (spawnedProcessObjects s) \<le> 1"
    and "int i < int (length (commandOptionsForProcessesToRun s)) - 1"
  shows "spawnedProcessObjects (processEndCallback h i w s) =
      [\<lparr>process = \<lparr>options = at (commandOptionsForProcessesToRun s) (i + 1), index = i + 1,
                    stdin = initialStdin s\<rparr>, worker = None\<rparr>]"
    and "initialStdinDataForNextProcess (processEndCallback h i w s) = []"
    and "trace (processEndCallback h i w s) =
      trace s @ (case w of None \<Rightarrow> [] | Some x \<Rightarrow> [Worker_terminate x])
      @ [Process_new (i + 1) (initialStdin s), Process_start (i + 1)]"
  using assms
  by (cases w; cases "spawnedProcessObjects s";
      simp add: processEndCallback_def Let_def tryToSpawnProcess_def spawnProcess_fields
        effect_def initialStdin_def)+

lemma processEndCallback_last:
  assumes "\<not> int i < int (length (commandOptionsForProcessesToRun s)) - 1"
  shows "initialStdinDataForNextProcess (processEndCallback h i w s) =
      initialStdinDataForNextProcess s"
  using assms by (cases w) (simp_all add: processEndCallback_def Let_def effect_def)

lemma data_steps:
  assumes "length (spawnedProcessObjects s) \<le> 1"
    and "int i < int (length (commandOptionsForProcessesToRun s)) - 1"
  shows "steps h s (map (Data i) chunks) =
    s\<lparr>initialStdinDataForNextProcess := initialStdinDataForNextProcess s @ concat chunks\<rparr>"
  using assms
proof (induction chunks arbitrary: s)
  case Nil
  show ?case by (simp add: steps_Nil)
next
  case (Cons d ds)
  let ?s = "s\<lparr>initialStdinDataForNextProcess := initialStdinDataForNextProcess s @ d\<rparr>"
  have "step h s (Data i d) = ?s"
    using Cons.prems by (simp add: processDataCallback_buffered)
  moreover have "steps h ?s (map (Data i) ds) =
      ?s\<lparr>initialStdinDataForNextProcess := initialStdinDataForNextProcess ?s @ concat ds\<rparr>"
    using Cons.prems by (intro Cons.IH) simp_all
  ultimately show ?case by (simp add: steps_Cons)
qed

lemma buffer_step:
  assumes "length (spawnedProcessObjects s) \<le> 1"
  shows "(\<exists>d. initialStdinDataForNextProcess (step h s e) = initialStdinDataForNextProcess s @ d)
    \<or> (\<exists>j w. e = End j w \<and> int j < int (length (commandOptionsForProcessesToRun s)) - 1
          \<and> initialStdinDataForNextProcess (step h s e) = [])"
proof (cases e)
  case (Data i data)
  show ?thesis
  proof (cases "int i < int (length (commandOptionsForProcessesToRun s)) - 1")
    case True
    with assms Data show ?thesis by (simp add: processDataCallback_buffered)
  next
    case False
    with Data show ?thesis by (simp add: processDataCallback_written)
  qed
next
  case (End i w)
  show ?thesis
  proof (cases "int i < int (length (commandOptionsForProcessesToRun s)) - 1")
    case True
    with assms End show ?thesis by (simp add: processEndCallback_spawns)
  next
    case False
    with End show ?thesis by (simp add: processEndCallback_last)
  qed
next
  case (Err i err)
  have "initialStdinDataForNextProcess (kill s') = initialStdinDataForNextProcess s'" for s' :: "'a CommandRunner"
    by (cases "isRunning s'") (simp_all add: kill_running kill_idle)
  with Err show ?thesis
    by (auto simp: processErrorCallback_def effect_simps split: option.splits)
next
  case Kill
  then show ?thesis
    by (cases "isRunning s") (simp_all add: kill_running kill_idle)
qed

lemma replace_lf_concat:
  "replace_lf t = concat (map (\<lambda>c. if c = CHR 0x0A then [CHR 0x0D, CHR 0x0A] else [c]) t)"
  by (induction t) simp_all

subsection \<open>The number of spawned process objects\<close>

text \<open>
  C4. Along a run (\<^verbatim>\<open>runCommand\<close> on a new runner, then any callbacks and kills) there
  are never more than two spawned process objects; and each operation that is called
  on the runner (\<^verbatim>\<open>runCommand\<close>, \<^verbatim>\<open>tryToSpawnProcess\<close>, the three callbacks,
  \<^verbatim>\<open>kill\<close>) keeps the bound of two when it holds before.
\<close>

theorem live_units_at_most_two:
  "(\<forall>s0. runCommand h (constructor cs) = Inr s0 \<longrightarrow>
      length (spawnedProcessObjects (steps h s0 es)) \<le> 2)
   \<and> (length (spawnedProcessObjects s) \<le> 2 \<longrightarrow>
        (\<forall>s'. runCommand h s = Inr s' \<longrightarrow> length (spawnedProcessObjects s') \<le> 2)
        \<and> length (spawnedProcessObjects (tryToSpawnProcess h i s)) \<le> 2
        \<and> length (spawnedProcessObjects (processDataCallback h i data s)) \<le> 2
        \<and> length (spawnedProcessObjects (processEndCallback h i w s)) \<le> 2
        \<and> (\<forall>s'. processErrorCallback i err s = Inr s' \<longrightarrow>
              length (spawnedProcessObjects s') \<le> 2)
        \<and> length (spawnedProcessObjects (kill s)) \<le> 2)"
proof (intro conjI impI allI)
  fix s0 assume "runCommand h (constructor cs) = Inr s0"
  then show "length (spawnedProcessObjects (steps h s0 es)) \<le> 2"
    using run_live [of h cs s0 es] by simp
next
  fix s' assume "length (spawnedProcessObjects s) \<le> 2" "runCommand h s = Inr s'"
  then show "length (spawnedProcessObjects s') \<le> 2"
    using runCommand_live [of h s s'] by simp
next
  assume "length (spawnedProcessObjects s) \<le> 2"
  then show "length (spawnedProcessObjects (tryToSpawnProcess h i s)) \<le> 2"
    using tryToSpawnProcess_live [of h i s] by simp
next
  assume "length (spawnedProcessObjects s) \<le> 2"
  then show "length (spawnedProcessObjects (processDataCallback h i data s)) \<le> 2"
    by (simp add: processDataCallback_live)
next
  assume "length (spawnedProcessObjects s) \<le> 2"
  then show "length (spawnedProcessObjects (processEndCallback h i w s)) \<le> 2"
    using processEndCallback_live [of h i w s] by simp
next
  fix s' assume "length (spawnedProcessObjects s) \<le> 2" "processErrorCallback i err s = Inr s'"
  then show "length (spawnedProcessObjects s') \<le> 2"
    using processErrorCallback_live [of i err s s'] by simp
next
  assume "length (spawnedProcessObjects s) \<le> 2"
  then show "length (spawnedProcessObjects (kill s)) \<le> 2"
    using kill_live [of s] by simp
qed

theorem live_units_at_most_two_witness:
  "runCommand demo_host (constructor ''a | b'') = Inr demo_running
   \<and> length (spawnedProcessObjects (steps demo_host demo_running [Data 0 [1, 2], End 0 None])) \<le> 2
   \<and> length (spawnedProcessObjects demo_running) \<le> 2
   \<and> (case runCommand demo_host demo_running of
         Inl e \<Rightarrow> False
       | Inr s' \<Rightarrow> length (spawnedProcessObjects s') = 2)
   \<and> length (spawnedProcessObjects (tryToSpawnProcess demo_host 1 demo_running)) \<le> 2
   \<and> length (spawnedProcessObjects (processDataCallback demo_host 0 [1, 2] demo_running)) \<le> 2
   \<and> length (spawnedProcessObjects (processEndCallback demo_host 0 None demo_running)) \<le> 2
   \<and> (case processErrorCallback 0 ''boom'' demo_running of
         Inl e \<Rightarrow> False
       | Inr s' \<Rightarrow> length (spawnedProcessObjects s') = 0)
   \<and> length (spawnedProcessObjects (kill demo_running)) \<le> 2"
proof -
  have len: "length (spawnedProcessObjects demo_running) \<le> 2"
    by (simp add: demo_running_def)
  have rerun: "case runCommand demo_host demo_running of
         Inl e \<Rightarrow> False
       | Inr s' \<Rightarrow> length (spawnedProcessObjects s') = 2"
    by (simp add: run_defs demo_defs demo_running_def)
  have err: "case processErrorCallback 0 ''boom'' demo_running of
         Inl e \<Rightarrow> False
       | Inr s' \<Rightarrow> length (spawnedProcessObjects s') = 0"
    by (simp add: demo_running_def callback_defs effect_def at_def)
  show ?thesis
    using live_units_at_most_two
            [of demo_host "''a | b''" "[Data 0 [1, 2], End 0 None]" demo_running 1 "[1, 2]" None "''boom''"]
          live_units_at_most_two
            [of demo_host "''a | b''" "[Data 0 [1, 2], End 0 None]" demo_running 0 "[1, 2]" None "''boom''"]
          demo_run len rerun err
    by simp
qed

text \<open>
  C9. Along a run there is at most one spawned process object. The branch that hands a
  chunk to an already spawned next process is never taken: no such action is in the
  trace, and a chunk of a stage that is not the last goes to the buffer, unchanged.
  The process of stage \<open>i + 1\<close> enters the array in the end callback of stage \<open>i\<close>,
  after the \<^verbatim>\<open>shift\<close>, so it is alone there; no other callback and no kill adds one.
\<close>

theorem one_live_unit:
  assumes "runCommand h (constructor cs) = Inr s0" and "s = steps h s0 es"
  shows "length (spawnedProcessObjects s) \<le> 1
    \<and> filter is_handoff (trace s) = []
    \<and> (int i < int (length (commandOptionsForProcessesToRun s)) - 1 \<longrightarrow>
         processDataCallback h i data s =
           s\<lparr>initialStdinDataForNextProcess := initialStdinDataForNextProcess s @ data\<rparr>
         \<and> spawnedProcessObjects (processEndCallback h i w s) =
           [\<lparr>process = \<lparr>options = at (commandOptionsForProcessesToRun s) (i + 1),
                         index = i + 1, stdin = initialStdin s\<rparr>, worker = None\<rparr>])
    \<and> ((\<forall>j w'. e \<noteq> End j w') \<longrightarrow>
         length (spawnedProcessObjects (step h s e)) \<le> length (spawnedProcessObjects s))"
proof -
  have live: "length (spawnedProcessObjects s) \<le> 1"
    using run_live [OF assms(1), of es] assms(2) by simp
  have "length (spawnedProcessObjects s0) \<le> 1"
    using assms(1) by (rule runCommand_new_live)
  then have quiet: "filter is_handoff (trace s) = []"
    using assms by (simp add: steps_handoff runCommand_new_handoff)
  have other: "length (spawnedProcessObjects (step h s e)) \<le> length (spawnedProcessObjects s)"
    if "\<forall>j w'. e \<noteq> End j w'"
  proof (cases e)
    case (Data j d)
    then show ?thesis by (simp add: processDataCallback_live)
  next
    case (End j w')
    with that show ?thesis by simp
  next
    case (Err j err)
    then show ?thesis
      using processErrorCallback_live [of j err s]
      by (cases "processErrorCallback j err s") auto
  next
    case Kill
    then show ?thesis by (simp add: kill_live)
  qed
  show ?thesis
    using live quiet other
    by (simp add: processDataCallback_buffered processEndCallback_spawns)
qed

theorem one_live_unit_witness:
  "runCommand demo_host (constructor ''a | b'') = Inr demo_running
   \<and> length (spawnedProcessObjects (steps demo_host demo_running [Data 0 [1, 2]])) \<le> 1
   \<and> filter is_handoff (trace (steps demo_host demo_running [Data 0 [1, 2]])) = []
   \<and> initialStdinDataForNextProcess
       (processDataCallback demo_host 0 [3] (steps demo_host demo_running [Data 0 [1, 2]]))
       = [1, 2, 3]
   \<and> spawnedProcessObjects
       (processEndCallback demo_host 0 None (steps demo_host demo_running [Data 0 [1, 2]])) =
       [\<lparr>process = \<lparr>options = Some \<lparr>args = [''b''], env = [], module = ''b.wasm''\<rparr>,
                     index = 1, stdin = Some [1, 2]\<rparr>, worker = None\<rparr>]
   \<and> length (spawnedProcessObjects (step demo_host (steps demo_host demo_running [Data 0 [1, 2]]) Kill))
       \<le> length (spawnedProcessObjects (steps demo_host demo_running [Data 0 [1, 2]]))"
proof -
  have s: "steps demo_host demo_running [Data 0 [1, 2]] =
      demo_running\<lparr>initialStdinDataForNextProcess := [1, 2]\<rparr>"
    by (simp add: steps_def processDataCallback_def demo_running_def)
  have "int 0 < int (length (commandOptionsForProcessesToRun
      (steps demo_host demo_running [Data 0 [1, 2]]))) - 1"
    by (simp add: s) (simp add: demo_running_def)
  then show ?thesis
    using one_live_unit [OF demo_run refl, of "[Data 0 [1, 2]]" 0 "[3]" None Kill]
    by (simp add: s demo_run) (simp add: demo_running_def at_def initialStdin_def)
qed

subsection \<open>The buffer for the next process\<close>

text \<open>
  C6. Along a run, the chunks that a stage other than the last produces are appended to
  the buffer, in order. The end callback of that stage spawns the next stage with the
  whole buffer as its stdin (\<^verbatim>\<open>undefined\<close> when the buffer has no byte) and leaves the
  buffer empty. Nothing but such a spawn takes bytes out of the buffer: every other
  step only appends to it.
\<close>

theorem pending_input_delivered:
  assumes "runCommand h (constructor cs) = Inr s0" and "s = steps h s0 es"
    and "int i < int (length (commandOptionsForProcessesToRun s)) - 1"
    and "s' = steps h s (map (Data i) chunks)"
    and "b = initialStdinDataForNextProcess s @ concat chunks"
  shows "initialStdinDataForNextProcess s' = b
    \<and> spawnedProcessObjects (processEndCallback h i w s') =
        [\<lparr>process = \<lparr>options = at (commandOptionsForProcessesToRun s) (i + 1), index = i + 1,
                      stdin = (if b = [] then None else Some b)\<rparr>, worker = None\<rparr>]
    \<and> trace (processEndCallback h i w s') =
        trace s @ (case w of None \<Rightarrow> [] | Some x \<Rightarrow> [Worker_terminate x])
        @ [Process_new (i + 1) (if b = [] then None else Some b), Process_start (i + 1)]
    \<and> initialStdinDataForNextProcess (processEndCallback h i w s') = []
    \<and> ((\<exists>d. initialStdinDataForNextProcess (step h s e) = initialStdinDataForNextProcess s @ d)
       \<or> (\<exists>j w'. e = End j w' \<and> int j < int (length (commandOptionsForProcessesToRun s)) - 1
             \<and> initialStdinDataForNextProcess (step h s e) = []))"
proof -
  have live: "length (spawnedProcessObjects s) \<le> 1"
    using run_live [OF assms(1), of es] assms(2) by simp
  have s': "s' = s\<lparr>initialStdinDataForNextProcess := b\<rparr>"
    using live assms(3,4,5) by (simp add: data_steps)
  have live': "length (spawnedProcessObjects s') \<le> 1"
    and last': "int i < int (length (commandOptionsForProcessesToRun s')) - 1"
    using live assms(3) by (simp_all add: s')
  have stdin': "initialStdin s' = (if b = [] then None else Some b)"
    by (simp add: s' initialStdin_def)
  have "spawnedProcessObjects (processEndCallback h i w s') =
        [\<lparr>process = \<lparr>options = at (commandOptionsForProcessesToRun s) (i + 1), index = i + 1,
                      stdin = (if b = [] then None else Some b)\<rparr>, worker = None\<rparr>]"
    using processEndCallback_spawns(1) [OF live' last', of h w] stdin' by (simp add: s')
  moreover have "trace (processEndCallback h i w s') =
        trace s @ (case w of None \<Rightarrow> [] | Some x \<Rightarrow> [Worker_terminate x])
        @ [Process_new (i + 1) (if b = [] then None else Some b), Process_start (i + 1)]"
    using processEndCallback_spawns(3) [OF live' last', of h w] stdin' by (simp add: s')
  moreover have "initialStdinDataForNextProcess (processEndCallback h i w s') = []"
    using live' last' by (rule processEndCallback_spawns(2))
  moreover have "initialStdinDataForNextProcess s' = b"
    by (simp add: s')
  ultimately show ?thesis
    using buffer_step [OF live, of h e] by simp
qed

theorem pending_input_delivered_witness:
  "runCommand demo_host (constructor ''a | b'') = Inr demo_running
   \<and> initialStdinDataForNextProcess (steps demo_host demo_running [Data 0 [1, 2], Data 0 [3]])
       = [1, 2, 3]
   \<and> trace (processEndCallback demo_host 0 None
              (steps demo_host demo_running [Data 0 [1, 2], Data 0 [3]])) =
       [Process_new 0 None, Process_start 0, Process_new 1 (Some [1, 2, 3]), Process_start 1]
   \<and> initialStdinDataForNextProcess
       (processEndCallback demo_host 0 None
          (steps demo_host demo_running [Data 0 [1, 2], Data 0 [3]])) = []"
proof -
  have "int 0 < int (length (commandOptionsForProcessesToRun (steps demo_host demo_running []))) - 1"
    by (simp add: steps_def demo_running_def)
  then show ?thesis
    using pending_input_delivered
            [OF demo_run refl _ refl refl, of 0 "[]" "[[1, 2], [3]]" None Kill]
    by (simp add: demo_run steps_Nil) (simp add: demo_running_def)
qed

subsection \<open>Where a chunk goes\<close>

text \<open>
  C7. A chunk whose index is not below the last index of the command options is
  decoded, every line feed of the text is replaced by carriage return and line feed,
  and the text is written to the terminal. A chunk of an earlier stage is not decoded
  and not changed: it is handed to the second spawned process when there is one, and
  appended to the buffer otherwise. The test reads the command options as they are
  when the chunk arrives; after \<^verbatim>\<open>kill\<close> has emptied them every index passes as last.
\<close>

theorem processDataCallback_routes:
  "(\<not> int i < int (length (commandOptionsForProcessesToRun s)) - 1 \<longrightarrow>
      processDataCallback h i data s =
        s\<lparr>trace := trace s @
            [Xterm_write
               (concat (map (\<lambda>c. if c = CHR 0x0A then [CHR 0x0D, CHR 0x0A] else [c])
                          (decode h data)))]\<rparr>)
   \<and> (int i < int (length (commandOptionsForProcessesToRun s)) - 1 \<longrightarrow>
        (length (spawnedProcessObjects s) > 1 \<longrightarrow>
           processDataCallback h i data s =
             s\<lparr>trace := trace s @
                 [Process_receiveStdinChunk (index (process (spawnedProcessObjects s ! 1))) data]\<rparr>)
        \<and> (\<not> length (spawnedProcessObjects s) > 1 \<longrightarrow>
             processDataCallback h i data s =
               s\<lparr>initialStdinDataForNextProcess := initialStdinDataForNextProcess s @ data\<rparr>))"
  by (simp add: processDataCallback_def effect_def replace_lf_concat)

theorem processDataCallback_routes_witness:
  "processDataCallback demo_host 1 [0x68, 0x0A, 0x69] demo_running =
     demo_running\<lparr>trace := trace demo_running @ [Xterm_write (''h'' @ crlf @ ''i'')]\<rparr>
   \<and> processDataCallback demo_host 0 [0x68, 0x0A, 0x69] demo_running =
     demo_running\<lparr>initialStdinDataForNextProcess := [0x68, 0x0A, 0x69]\<rparr>
   \<and> processDataCallback demo_host 0 [0x68, 0x0A, 0x69] demo_two_live =
     demo_two_live\<lparr>trace := trace demo_two_live @ [Process_receiveStdinChunk 1 [0x68, 0x0A, 0x69]]\<rparr>"
  using processDataCallback_routes [of 1 demo_running demo_host "[0x68, 0x0A, 0x69]"]
        processDataCallback_routes [of 0 demo_running demo_host "[0x68, 0x0A, 0x69]"]
        processDataCallback_routes [of 0 demo_two_live demo_host "[0x68, 0x0A, 0x69]"]
  by (simp add: demo_two_live_def demo_running_def demo_defs crlf_def)

subsection \<open>kill\<close>

text \<open>
  \<^verbatim>\<open>spawnProcess\<close> takes the worker branch under a condition that ends in
  \<^verbatim>\<open>&& false\<close>, so along a run every spawned process object is the one of
  \<^verbatim>\<open>spawnProcessAsService\<close>: it has no worker.
\<close>

lemma kill_no_worker:
  "\<forall>po \<in> set (spawnedProcessObjects (kill s)). worker po = None"
  if "\<forall>po \<in> set (spawnedProcessObjects s). worker po = None"
  using that by (cases "isRunning s") (simp_all add: kill_running kill_idle)

lemma step_no_worker:
  assumes "\<forall>po \<in> set (spawnedProcessObjects s). worker po = None"
  shows "\<forall>po \<in> set (spawnedProcessObjects (step h s e)). worker po = None"
proof (cases e)
  case (Data i data)
  with assms show ?thesis by (simp add: processDataCallback_live)
next
  case (End i w)
  have "set (tl (spawnedProcessObjects s)) \<subseteq> set (spawnedProcessObjects s)"
    by (cases "spawnedProcessObjects s") auto
  with assms End show ?thesis
    by (cases w) (auto simp: processEndCallback_def Let_def tryToSpawnProcess_def
          spawnProcess_fields effect_def)
next
  case (Err i err)
  have "\<forall>po \<in> set (spawnedProcessObjects (kill (effect a s))). worker po = None" for a
    using assms by (intro kill_no_worker) (simp add: effect_simps)
  with assms Err show ?thesis
    by (auto simp: processErrorCallback_def effect_simps split: option.splits)
next
  case Kill
  with assms show ?thesis using kill_no_worker [of s] by simp
qed

lemma steps_no_worker:
  assumes "\<forall>po \<in> set (spawnedProcessObjects s). worker po = None"
  shows "\<forall>po \<in> set (spawnedProcessObjects (steps h s es)). worker po = None"
  using assms
proof (induction es arbitrary: s)
  case Nil
  then show ?case by (simp add: steps_Nil)
next
  case (Cons e es)
  have "\<forall>po \<in> set (spawnedProcessObjects (step h s e)). worker po = None"
    using Cons.prems by (rule step_no_worker)
  then show ?case
    unfolding steps_Cons by (rule Cons.IH)
qed

lemma runCommand_new_no_worker:
  assumes "runCommand h (constructor cs) = Inr s0"
  shows "\<forall>po \<in> set (spawnedProcessObjects s0). worker po = None"
  using assms
  by (auto simp: runCommand_def effect_simps tryToSpawnProcess_def spawnProcess_fields
        constructor_def split: sum.splits if_splits)

lemma map_filter_no_worker:
  "\<forall>po \<in> set pos. worker po = None \<Longrightarrow> List.map_filter worker pos = []"
  by (induction pos) simp_all

lemma run_no_worker:
  assumes "runCommand h (constructor cs) = Inr s0"
  shows "List.map_filter worker (spawnedProcessObjects (steps h s0 es)) = []"
  using steps_no_worker [OF runCommand_new_no_worker [OF assms], of h es]
  by (rule map_filter_no_worker)

text \<open>
  C8, as the code has it. \<^verbatim>\<open>kill\<close> on a runner that is not running returns the runner
  as it is: no field changes and the callback is not called. On a running runner it
  calls \<^verbatim>\<open>terminate\<close> on the worker of every spawned process object that has one,
  empties the command options and the spawned process objects, sets \<^verbatim>\<open>isRunning\<close> to
  false and calls the callback once; the buffer and the command string stay. A process
  object without a worker is only dropped from the array: nothing is called on its
  process. Along a run that is every process object, so there \<^verbatim>\<open>kill\<close> terminates
  nothing and only calls the callback.
\<close>

theorem kill_frame:
  "(\<not> isRunning s \<longrightarrow> kill s = s)
   \<and> (isRunning s \<longrightarrow>
        commandOptionsForProcessesToRun (kill s) = []
        \<and> spawnedProcessObjects (kill s) = []
        \<and> \<not> isRunning (kill s)
        \<and> trace (kill s) =
            trace s @ map Worker_terminate (List.map_filter worker (spawnedProcessObjects s))
            @ [CommandEndCallback]
        \<and> initialStdinDataForNextProcess (kill s) = initialStdinDataForNextProcess s
        \<and> commandString (kill s) = commandString s)
   \<and> (runCommand h (constructor cs) = Inr s0 \<and> isRunning (steps h s0 es) \<longrightarrow>
        trace (kill (steps h s0 es)) = trace (steps h s0 es) @ [CommandEndCallback])"
proof -
  have "trace (kill (steps h s0 es)) = trace (steps h s0 es) @ [CommandEndCallback]"
    if "runCommand h (constructor cs) = Inr s0" and "isRunning (steps h s0 es)"
    using that by (simp add: kill_running run_no_worker [of h cs s0 es])
  then show ?thesis
    by (simp add: kill_idle kill_running)
qed

theorem kill_frame_witness:
  "\<not> isRunning (constructor ''a | b'' :: string CommandRunner)
   \<and> kill (constructor ''a | b'' :: string CommandRunner) = constructor ''a | b''
   \<and> isRunning demo_running
   \<and> kill demo_running =
       \<lparr>commandOptionsForProcessesToRun = [], spawnedProcessObjects = [],
        initialStdinDataForNextProcess = [], isRunning = False, commandString = ''a | b'',
        trace = [Process_new 0 None, Process_start 0, CommandEndCallback]\<rparr>
   \<and> isRunning demo_worker_running
   \<and> kill demo_worker_running =
       \<lparr>commandOptionsForProcessesToRun = [], spawnedProcessObjects = [],
        initialStdinDataForNextProcess = [], isRunning = False, commandString = ''a | b'',
        trace = [Process_new 0 None, Process_start 0, Worker_terminate 0, CommandEndCallback]\<rparr>
   \<and> runCommand demo_host (constructor ''a | b'') = Inr demo_running
   \<and> isRunning (steps demo_host demo_running [Data 0 [1, 2]])
   \<and> trace (kill (steps demo_host demo_running [Data 0 [1, 2]])) =
       [Process_new 0 None, Process_start 0, CommandEndCallback]"
proof -
  have s: "steps demo_host demo_running [Data 0 [1, 2]] =
      demo_running\<lparr>initialStdinDataForNextProcess := [1, 2]\<rparr>"
    by (simp add: steps_def processDataCallback_def demo_running_def)
  show ?thesis
    using kill_frame [of "constructor ''a | b'' :: string CommandRunner" demo_host "''a | b''"
            demo_running "[Data 0 [1, 2]]"]
      kill_frame [of demo_running demo_host "''a | b''" demo_running "[Data 0 [1, 2]]"]
      kill_frame [of demo_worker_running demo_host "''a | b''" demo_running "[Data 0 [1, 2]]"]
    by (simp add: demo_run s)
       (simp add: constructor_def demo_running_def demo_worker_running_def)
qed

text \<open>
  After \<^verbatim>\<open>runCommand\<close> on \<^verbatim>\<open>a | b\<close> the runner is running and the process of the first
  stage is spawned, without a worker. \<^verbatim>\<open>kill\<close> adds the call of the callback to the
  trace and nothing else: the spawned process is not terminated.
\<close>

theorem kill_leaves_service_process:
  "runCommand demo_host (constructor ''a | b'') = Inr demo_running
   \<and> isRunning demo_running
   \<and> map worker (spawnedProcessObjects demo_running) = [None]
   \<and> trace demo_running = [Process_new 0 None, Process_start 0]
   \<and> trace (kill demo_running) = [Process_new 0 None, Process_start 0, CommandEndCallback]"
  by (simp add: demo_run) (simp add: demo_running_def kill_def terminate_worker_def effect_def)

end
